theory Spec2Isabelle
  imports Complex_Main "HOL-Library.Sublist"
begin

section \<open>Strings\<close>

text \<open>
  Go strings are byte sequences; they are modelled as \<open>string\<close> (a list of 8-bit
  characters). The three functions of package \<open>strings\<close> used by the selector are
  written out. \<open>ToLower\<close> and \<open>Fields\<close> are the ASCII behaviour of the Go functions
  (every keyword table in the program is ASCII).
\<close>

fun Contains :: "string \<Rightarrow> string \<Rightarrow> bool" where
  "Contains [] sub = (sub = [])"
| "Contains (c # cs) sub = (prefix sub (c # cs) \<or> Contains cs sub)"

definition lowerChar :: "char \<Rightarrow> char" where
  "lowerChar c =
     (if (65::nat) \<le> of_char c \<and> of_char c \<le> (90::nat)
      then char_of (of_char c + (32::nat)) else c)"

definition ToLower :: "string \<Rightarrow> string" where
  "ToLower s = map lowerChar s"

definition isSpace :: "char \<Rightarrow> bool" where
  "isSpace c = (of_char c \<in> {9::nat, 10, 11, 12, 13, 32})"

text \<open>\<open>fieldsAux cur s\<close>: \<open>cur\<close> is the field being read, reversed.\<close>

fun fieldsAux :: "string \<Rightarrow> string \<Rightarrow> string list" where
  "fieldsAux cur [] = (if cur = [] then [] else [rev cur])"
| "fieldsAux cur (c # cs) =
     (if isSpace c
      then (if cur = [] then fieldsAux [] cs else rev cur # fieldsAux [] cs)
      else fieldsAux (c # cur) cs)"

definition Fields :: "string \<Rightarrow> string list" where
  "Fields s = fieldsAux [] s"

section \<open>PM selection (internal/team/pm.go)\<close>

record PMStrength =
  AIID :: string
  DisplayName :: string
  Strengths :: "string list"
  Score :: int

definition GetPMStrengths :: "PMStrength list" where
  "GetPMStrengths =
     [ \<lparr> AIID = ''claude'', DisplayName = ''Claude'',
         Strengths = [''nuanced reasoning'', ''writing'', ''analysis'', ''ethics'',
                      ''explanation'', ''documentation'', ''architecture'', ''design''],
         Score = 0 \<rparr>,
       \<lparr> AIID = ''gpt'', DisplayName = ''GPT'',
         Strengths = [''coding'', ''implementation'', ''debugging'', ''api design'',
                      ''system design'', ''data analysis'', ''algorithms''],
         Score = 0 \<rparr>,
       \<lparr> AIID = ''gemini'', DisplayName = ''Gemini'',
         Strengths = [''research'', ''multimodal'', ''information synthesis'',
                      ''fact checking'', ''summarization'', ''translation''],
         Score = 0 \<rparr>,
       \<lparr> AIID = ''groq'', DisplayName = ''Groq (Llama)'',
         Strengths = [''speed'', ''quick iteration'', ''brainstorming'',
                      ''rapid prototyping''],
         Score = 0 \<rparr> ]"

text \<open>The inner loop of \<open>Select\<close> that looks the candidate up among the members.\<close>

fun isAvailable :: "string list \<Rightarrow> string \<Rightarrow> bool" where
  "isAvailable [] aiID = False"
| "isAvailable (member # rest) aiID = (if member = aiID then True else isAvailable rest aiID)"

text \<open>The loop over the words of one strength (\<open>score++\<close> for each word found).\<close>

fun wordScore :: "string \<Rightarrow> string list \<Rightarrow> int \<Rightarrow> int" where
  "wordScore taskLower [] score = score"
| "wordScore taskLower (word # ws) score =
     wordScore taskLower ws (if Contains taskLower word then score + 1 else score)"

text \<open>The loop over the strengths of one candidate.\<close>

fun strengthScore :: "string \<Rightarrow> string list \<Rightarrow> int \<Rightarrow> int" where
  "strengthScore taskLower [] score = score"
| "strengthScore taskLower (strength # ss) score =
     strengthScore taskLower ss
       (wordScore taskLower (Fields strength)
          (if Contains taskLower strength then score + 2 else score))"

text \<open>
  One keyword loop of \<open>getTaskTypeBonus\<close>: the first keyword found in the task ends the
  loop, and adds 3 when the candidate is the one the category favours.
\<close>

fun keywordBonus :: "string \<Rightarrow> string \<Rightarrow> string \<Rightarrow> string list \<Rightarrow> int \<Rightarrow> int" where
  "keywordBonus task aiID favoured [] bonus = bonus"
| "keywordBonus task aiID favoured (kw # kws) bonus =
     (if Contains task kw
      then (if aiID = favoured then bonus + 3 else bonus)
      else keywordBonus task aiID favoured kws bonus)"

definition codingKeywords :: "string list" where
  "codingKeywords = [''code'', ''implement'', ''build'', ''develop'', ''program'',
                     ''function'', ''api'', ''debug'', ''fix'']"

definition writingKeywords :: "string list" where
  "writingKeywords = [''write'', ''document'', ''explain'', ''analyze'', ''review'',
                      ''design'', ''architect'', ''plan'']"

definition researchKeywords :: "string list" where
  "researchKeywords = [''research'', ''find'', ''search'', ''compare'', ''investigate'',
                       ''summarize'']"

definition quickKeywords :: "string list" where
  "quickKeywords = [''quick'', ''fast'', ''simple'', ''prototype'', ''brainstorm'',
                    ''iterate'']"

definition getTaskTypeBonus :: "string \<Rightarrow> string \<Rightarrow> int" where
  "getTaskTypeBonus task aiID =
     keywordBonus task aiID ''groq'' quickKeywords
       (keywordBonus task aiID ''gemini'' researchKeywords
          (keywordBonus task aiID ''claude'' writingKeywords
             (keywordBonus task aiID ''gpt'' codingKeywords 0)))"

definition pmScore :: "string \<Rightarrow> PMStrength \<Rightarrow> int" where
  "pmScore taskLower pm =
     strengthScore taskLower (Strengths pm) 0 + getTaskTypeBonus taskLower (AIID pm)"

text \<open>
  The main loop of \<open>Select\<close>; the state is \<open>(bestPM, bestScore)\<close>. A candidate that is
  not among the members is skipped (\<open>continue\<close>).
\<close>

fun selectLoop :: "string \<Rightarrow> string list \<Rightarrow> PMStrength list \<Rightarrow> string \<times> int \<Rightarrow> string \<times> int" where
  "selectLoop taskLower members [] best = best"
| "selectLoop taskLower members (pm # pms) (bestPM, bestScore) =
     (if \<not> isAvailable members (AIID pm)
      then selectLoop taskLower members pms (bestPM, bestScore)
      else if pmScore taskLower pm > bestScore
      then selectLoop taskLower members pms (AIID pm, pmScore taskLower pm)
      else selectLoop taskLower members pms (bestPM, bestScore))"

text \<open>
  \<open>Select\<close> returns a pair \<open>(string, error)\<close>; the error is \<open>None\<close> for Go's \<open>nil\<close>.
\<close>

definition Select :: "string \<Rightarrow> string list \<Rightarrow> string \<times> string option" where
  "Select task availableMembers =
     (let taskLower = ToLower task;
          bestPM = fst (selectLoop taskLower availableMembers GetPMStrengths ([], -1))
      in if bestPM = []
         then (if isAvailable availableMembers ''claude'' then (''claude'', None)
               else (case availableMembers of
                       first # rest \<Rightarrow> (first, None)
                     | [] \<Rightarrow> (bestPM, None)))
         else (bestPM, None))"

text \<open>\<open>Runner.selectPM\<close> (team.go): a forced PM is used as it is.\<close>

definition selectPM :: "string \<Rightarrow> string \<Rightarrow> string list \<Rightarrow> string \<times> string option" where
  "selectPM optsPM task members =
     (if optsPM \<noteq> [] then (optsPM, None) else Select task members)"

section \<open>Checkpoints (internal/team/checkpoint.go)\<close>

text \<open>
  \<open>CheckpointLevel\<close> and \<open>CheckpointType\<close> are string types in the source, so a level
  other than the three constants can occur: it reaches the \<open>default\<close> branch.
\<close>

definition CheckpointAll :: string where "CheckpointAll = ''all''"
definition CheckpointMajor :: string where "CheckpointMajor = ''major''"
definition CheckpointNone :: string where "CheckpointNone = ''none''"

definition CheckpointPlanApproval :: string where "CheckpointPlanApproval = ''plan_approval''"
definition CheckpointMilestone :: string where "CheckpointMilestone = ''milestone''"
definition CheckpointReview :: string where "CheckpointReview = ''review''"
definition CheckpointDelivery :: string where "CheckpointDelivery = ''delivery''"

definition RequiresApproval :: "string \<Rightarrow> string \<Rightarrow> bool" where
  "RequiresApproval level checkpointType =
     (if level = CheckpointNone then False
      else if level = CheckpointMajor
      then checkpointType = CheckpointPlanApproval \<or> checkpointType = CheckpointDelivery
      else if level = CheckpointAll then True
      else True)"

subsection \<open>The scoring rule as the specification words it\<close>



section \<open>Events (internal/team/events.go)\<close>

datatype EventType =
    EventPhaseChanged | EventPMSelected | EventPMDecision | EventTaskCreated
  | EventTaskStarted | EventTaskProgress | EventTaskCompleted | EventTaskMovedToReview
  | EventPMApproved | EventUserTaskCreated | EventUserTaskBlocking
  | EventUserTaskCompleted | EventError | EventSessionComplete

text \<open>
  \<open>Phase\<close> is an integer type in the source, and \<open>Run\<close> uses the value \<open>-1\<close> for
  "no phase yet"; it is modelled as \<open>int\<close> with the six constants.
\<close>

type_synonym Phase = int

definition PhaseAnalysis :: Phase where "PhaseAnalysis = 0"
definition PhasePlanning :: Phase where "PhasePlanning = 1"
definition PhaseExecution :: Phase where "PhaseExecution = 2"
definition PhaseReview :: Phase where "PhaseReview = 3"
definition PhaseDelivery :: Phase where "PhaseDelivery = 4"
definition PhaseComplete :: Phase where "PhaseComplete = 5"

record PlanStep =
  step_ID :: string
  step_Description :: string
  step_AssignedTo :: string
  step_DependsOn :: "string list"
  step_Status :: string

text \<open>
  The payload \<open>Data interface{}\<close> holds one of the data structs of events.go or nothing;
  \<open>OtherData\<close> stands for a value of any other type, on which every type assertion of
  the board fails. \<open>Progress\<close> is a \<open>float64\<close> that is only stored, never computed
  with; it is a rational here. An \<open>error\<close> value is represented by its message.
\<close>

datatype EventData =
    NoData
  | TaskCreatedData (tc_Title: string) (tc_Description: string) (tc_AssignedTo: string)
      (tc_IsBlocking: bool) (tc_DependsOn: "string list")
  | TaskProgressData (tp_Content: string) (tp_Progress: rat)
  | PMDecisionData (pd_WorkMode: string) (pd_PlanSummary: string) (pd_Tasks: "PlanStep list")
  | PhaseChangedData (OldPhase: Phase) (NewPhase: Phase)
  | PMSelectedData (PMID: string) (ps_DisplayName: string)
  | ErrorData (ed_Error: string) (ed_TaskID: string) (ed_Message: string)
  | UserTaskCompletedData (Notes: string)
  | OtherData

text \<open>The \<open>Timestamp\<close> field (a wall-clock reading) is left out; nothing reads it.\<close>

record Event =
  Type :: EventType
  TaskID :: string
  Actor :: string
  Data :: EventData

definition NewEvent :: "EventType \<Rightarrow> string \<Rightarrow> EventData \<Rightarrow> Event" where
  "NewEvent eventType actor data =
     \<lparr> Type = eventType, TaskID = [], Actor = actor, Data = data \<rparr>"

definition NewTaskEvent :: "EventType \<Rightarrow> string \<Rightarrow> string \<Rightarrow> EventData \<Rightarrow> Event" where
  "NewTaskEvent eventType taskID actor data =
     \<lparr> Type = eventType, TaskID = taskID, Actor = actor, Data = data \<rparr>"

section \<open>The event channel (team.go, modes.go)\<close>

text \<open>
  An open buffered Go channel is its queue and its capacity. A send has room exactly when
  the queue is shorter than the capacity (a receiver can only be waiting when the queue
  is empty); otherwise a plain send would block. \<open>select\<close> with a \<open>default\<close> branch
  takes the send when it has room and the default branch otherwise.
\<close>

record 'a chan =
  buf :: "'a list"
  cap :: nat

datatype 'a sendResult = Sent "'a chan" | WouldBlock

definition makeChan :: "nat \<Rightarrow> 'a chan" where
  "makeChan n = \<lparr> buf = [], cap = n \<rparr>"

definition chanSend :: "'a chan \<Rightarrow> 'a \<Rightarrow> 'a sendResult" where
  "chanSend ch x =
     (if length (buf ch) < cap ch then Sent (ch\<lparr>buf := buf ch @ [x]\<rparr>) else WouldBlock)"

text \<open>\<open>Runner\<close>: the registry and the configuration play no part in \<open>emit\<close>.\<close>

record Runner =
  Events :: "Event chan"

definition NewRunner :: Runner where
  "NewRunner = \<lparr> Events = makeChan 100 \<rparr>"

definition emit :: "Runner \<Rightarrow> Event \<Rightarrow> Runner" where
  "emit r event =
     (case chanSend (Events r) event of
        Sent ch \<Rightarrow> r\<lparr>Events := ch\<rparr>
      | WouldBlock \<Rightarrow> r)"

text \<open>
  \<open>ModeExecutor.emit\<close>: the executor's channel may be nil (\<open>None\<close>); \<open>Run\<close> sets it to
  the runner's channel. The function returns the channel after the call.
\<close>

definition executorEmit :: "Event chan option \<Rightarrow> Event \<Rightarrow> Event chan option" where
  "executorEmit events event =
     (case events of
        None \<Rightarrow> None
      | Some ch \<Rightarrow>
          (case chanSend ch event of
             Sent ch' \<Rightarrow> Some ch'
           | WouldBlock \<Rightarrow> Some ch))"

section \<open>Kanban cards (internal/tui, card file)\<close>

datatype Column = ColumnBacklog | ColumnInProgress | ColumnReview | ColumnDone

text \<open>The integer value of a column (\<open>iota\<close>), which orders the columns.\<close>

fun colRank :: "Column \<Rightarrow> nat" where
  "colRank ColumnBacklog = 0"
| "colRank ColumnInProgress = 1"
| "colRank ColumnReview = 2"
| "colRank ColumnDone = 3"

record KanbanCard =
  ID :: string
  Title :: string
  Description :: string
  AssignedTo :: string
  Column :: Column
  IsBlocking :: bool
  IsUserTask :: bool
  StreamBuf :: string
  FullHistory :: string
  Progress :: rat
  DependsOn :: "string list"
  BlockedBy :: "string list"
  Done :: bool
  Error :: "string option"

definition NewKanbanCard :: "string \<Rightarrow> string \<Rightarrow> string \<Rightarrow> KanbanCard" where
  "NewKanbanCard taskID title assignedTo =
     \<lparr> ID = taskID, Title = title, Description = [], AssignedTo = assignedTo,
       Column = ColumnBacklog, IsBlocking = False, IsUserTask = (assignedTo = ''user''),
       StreamBuf = [], FullHistory = [], Progress = 0, DependsOn = [], BlockedBy = [],
       Done = False, Error = None \<rparr>"

definition IsBlocked :: "KanbanCard \<Rightarrow> bool" where
  "IsBlocked c = (length (BlockedBy c) > 0)"

section \<open>The Kanban board (internal/tui, board file)\<close>

text \<open>
  The board holds pointers to cards, in the map \<open>cards\<close> and in the column lists, and the
  same card is reached through both. So the cards live in a store: \<open>heap\<close> is the list
  of all cards allocated so far, and a pointer is an index into it. A new card gets the
  next index. The fields of \<open>KanbanModel\<close> for the screen (sizes, spinner, popup, help,
  debug log, activity line, clock readings) are left out: the event handler only writes
  them.
\<close>

record KanbanModel =
  pm :: string
  pmPhase :: Phase
  workMode :: string
  planSummary :: string
  heap :: "KanbanCard list"
  cards :: "string \<rightharpoonup> nat"
  columns :: "Column \<Rightarrow> nat list"
  activeCardID :: string
  complete :: bool

definition NewKanbanModel :: KanbanModel where
  "NewKanbanModel =
     \<lparr> pm = [], pmPhase = 0, workMode = [], planSummary = [], heap = [],
       cards = Map.empty, columns = (\<lambda>c. []), activeCardID = [], complete = False \<rparr>"

text \<open>
  \<open>moveCard\<close>: the old column keeps the cards whose ID differs from the moved card's ID,
  then the card's column is set and the card is appended to the new column.
\<close>

definition moveCard :: "KanbanModel \<Rightarrow> nat \<Rightarrow> Column \<Rightarrow> KanbanModel" where
  "moveCard m cardp toColumn =
     (let c = heap m ! cardp;
          oldCol = columns m (Column c);
          newOldCol = filter (\<lambda>x. ID (heap m ! x) \<noteq> ID c) oldCol;
          cols = (columns m)(Column c := newOldCol)
      in m\<lparr> heap := (heap m)[cardp := c\<lparr>Column := toColumn\<rparr>],
            columns := cols(toColumn := cols toColumn @ [cardp]) \<rparr>)"

text \<open>The card creation shared by the task-created and user-task-created cases.\<close>

definition addCard :: "KanbanModel \<Rightarrow> string \<Rightarrow> KanbanCard \<Rightarrow> KanbanModel" where
  "addCard m taskID cardp =
     m\<lparr> heap := heap m @ [cardp],
        cards := (cards m)(taskID \<mapsto> length (heap m)),
        columns := (columns m)(ColumnBacklog := columns m ColumnBacklog @ [length (heap m)]) \<rparr>"

definition handleTeamEventCopy :: "KanbanModel \<Rightarrow> Event \<Rightarrow> KanbanModel" where
  "handleTeamEventCopy m event =
     (case Type event of
        EventPhaseChanged \<Rightarrow>
          (case Data event of
             PhaseChangedData old new \<Rightarrow> m\<lparr>pmPhase := new\<rparr>
           | _ \<Rightarrow> m)
      | EventPMSelected \<Rightarrow>
          (case Data event of
             PMSelectedData pmid dn \<Rightarrow> m\<lparr>pm := pmid\<rparr>
           | _ \<Rightarrow> m)
      | EventPMDecision \<Rightarrow>
          (case Data event of
             PMDecisionData wm summary tasks \<Rightarrow>
               m\<lparr>pm := Actor event, workMode := wm, planSummary := summary\<rparr>
           | _ \<Rightarrow> m\<lparr>pm := Actor event\<rparr>)
      | EventTaskCreated \<Rightarrow>
          (case Data event of
             TaskCreatedData title descr assignedTo isBlocking dependsOn \<Rightarrow>
               addCard m (TaskID event)
                 ((NewKanbanCard (TaskID event) title assignedTo)
                    \<lparr> Description := descr, DependsOn := dependsOn,
                      IsBlocking := isBlocking, IsUserTask := (assignedTo = ''user'') \<rparr>)
           | _ \<Rightarrow> m)
      | EventTaskStarted \<Rightarrow>
          (case cards m (TaskID event) of
             Some cardp \<Rightarrow>
               (moveCard m cardp ColumnInProgress)\<lparr>activeCardID := ID (heap m ! cardp)\<rparr>
           | None \<Rightarrow> m)
      | EventTaskProgress \<Rightarrow>
          (case cards m (TaskID event) of
             Some cardp \<Rightarrow>
               (case Data event of
                  TaskProgressData content progress \<Rightarrow>
                    m\<lparr>heap := (heap m)[cardp := (heap m ! cardp)
                          \<lparr> StreamBuf := StreamBuf (heap m ! cardp) @ content,
                            FullHistory := FullHistory (heap m ! cardp) @ content,
                            Progress := progress \<rparr>]\<rparr>
                | _ \<Rightarrow> m)
           | None \<Rightarrow> m)
      | EventTaskCompleted \<Rightarrow>
          (case cards m (TaskID event) of
             Some cardp \<Rightarrow>
               moveCard (m\<lparr>heap := (heap m)[cardp := (heap m ! cardp)\<lparr>Done := True\<rparr>]\<rparr>)
                 cardp ColumnReview
           | None \<Rightarrow> m)
      | EventTaskMovedToReview \<Rightarrow>
          (case cards m (TaskID event) of
             Some cardp \<Rightarrow> moveCard m cardp ColumnReview
           | None \<Rightarrow> m)
      | EventPMApproved \<Rightarrow>
          (case cards m (TaskID event) of
             Some cardp \<Rightarrow> moveCard m cardp ColumnDone
           | None \<Rightarrow> m)
      | EventUserTaskCreated \<Rightarrow>
          (case Data event of
             TaskCreatedData title descr assignedTo isBlocking dependsOn \<Rightarrow>
               addCard m (TaskID event)
                 ((NewKanbanCard (TaskID event) title ''user'')
                    \<lparr> Description := descr, DependsOn := dependsOn,
                      IsBlocking := isBlocking, IsUserTask := True \<rparr>)
           | _ \<Rightarrow> m)
      | EventUserTaskBlocking \<Rightarrow> m
      | EventUserTaskCompleted \<Rightarrow> m
      | EventError \<Rightarrow>
          (case Data event of
             ErrorData err taskID msg \<Rightarrow>
               (case cards m taskID of
                  Some cardp \<Rightarrow>
                    m\<lparr>heap := (heap m)[cardp := (heap m ! cardp)\<lparr>Error := Some err\<rparr>]\<rparr>
                | None \<Rightarrow> m)
           | _ \<Rightarrow> m)
      | EventSessionComplete \<Rightarrow> m\<lparr>complete := True\<rparr>)"

text \<open>The board after the events of a list, from the fresh board.\<close>

definition processEvents :: "Event list \<Rightarrow> KanbanModel" where
  "processEvents evs = foldl handleTeamEventCopy NewKanbanModel evs"

text \<open>The card a task ID names on the board, if any.\<close>

definition cardOf :: "KanbanModel \<Rightarrow> string \<Rightarrow> KanbanCard option" where
  "cardOf m taskID = map_option (\<lambda>a. heap m ! a) (cards m taskID)"

text \<open>
  The target column of an event type, for the four event types that move a card.
\<close>

fun targetColumn :: "EventType \<Rightarrow> Column option" where
  "targetColumn EventTaskStarted = Some ColumnInProgress"
| "targetColumn EventTaskCompleted = Some ColumnReview"
| "targetColumn EventTaskMovedToReview = Some ColumnReview"
| "targetColumn EventPMApproved = Some ColumnDone"
| "targetColumn _ = None"

subsection \<open>The board invariant\<close>

text \<open>
  Every card registered under a task ID is allocated, carries that ID, and is in the
  column list named by its \<open>Column\<close> field; no column list holds a card twice; and
  every card in a column list is allocated and has that column in its \<open>Column\<close> field.
\<close>

definition boardInv :: "KanbanModel \<Rightarrow> bool" where
  "boardInv m =
     ((\<forall>taskID a. cards m taskID = Some a \<longrightarrow>
          a < length (heap m) \<and> ID (heap m ! a) = taskID
          \<and> a \<in> set (columns m (Column (heap m ! a))))
      \<and> (\<forall>col. distinct (columns m col))
      \<and> (\<forall>col. \<forall>a \<in> set (columns m col). a < length (heap m) \<and> Column (heap m ! a) = col))"

section \<open>Theorems\<close>

text \<open>
  C8: level none never requires approval, level all requires it for every checkpoint
  type, and level major requires it exactly for the plan-approval and delivery types; so
  at level major a milestone checkpoint is granted without approval and a delivery
  checkpoint requires it.
\<close>

theorem C8_requires_approval_levels:
  "RequiresApproval CheckpointNone t = False
   \<and> RequiresApproval CheckpointAll t = True
   \<and> RequiresApproval CheckpointMajor t
       = (t = CheckpointPlanApproval \<or> t = CheckpointDelivery)
   \<and> RequiresApproval CheckpointMajor CheckpointMilestone = False
   \<and> RequiresApproval CheckpointMajor CheckpointReview = False
   \<and> RequiresApproval CheckpointMajor CheckpointDelivery = True
   \<and> RequiresApproval CheckpointMajor CheckpointPlanApproval = True"
  by (simp add: RequiresApproval_def CheckpointNone_def CheckpointAll_def
        CheckpointMajor_def CheckpointPlanApproval_def CheckpointDelivery_def
        CheckpointMilestone_def CheckpointReview_def)

text \<open>
  C10: \<open>Select\<close> returns a nil error for every task and every member list; for the
  empty member list the chosen PM is the empty string. So \<open>selectPM\<close>, forced PM or
  not, never returns an error, and the "PM selection failed" branch of \<open>Run\<close> is never
  taken.
\<close>

theorem C10_select_never_fails:
  "snd (Select task members) = None
   \<and> Select task [] = ([], None)
   \<and> snd (selectPM [] task members) = None
   \<and> snd (selectPM forced task members) = None"
proof -
  have err: "snd (Select t ms) = None" for t ms
    by (simp add: Select_def Let_def split: list.splits)
  have empty: "Select task [] = ([], None)"
    by (simp add: Select_def Let_def GetPMStrengths_def)
  have cand: "snd (selectPM f task members) = None" for f
    by (simp add: selectPM_def err)
  show ?thesis
    using err empty cand by blast
qed

text \<open>
  C7 (the code at the failing input): with the members groq and gpt, in this order, and
  the task "hello", both candidates score zero and claude is not a member; \<open>Select\<close>
  returns gpt, the first available entry of the strengths table, and not groq, the first
  available member.
\<close>

theorem C7_all_zero_returns_table_order:
  "pmScore (ToLower ''hello'') (GetPMStrengths ! 1) = 0
   \<and> pmScore (ToLower ''hello'') (GetPMStrengths ! 3) = 0
   \<and> \<not> isAvailable [''groq'', ''gpt''] ''claude''
   \<and> Select ''hello'' [''groq'', ''gpt''] = (''gpt'', None)"
  by code_simp

subsection \<open>Scores and the selection loop\<close>














text \<open>
  C4: \<open>emit\<close> always returns (it takes the default branch where a send would block).
  On the channel of capacity 100 that \<open>NewRunner\<close> makes, the event is appended to the
  queue when the queue holds fewer than 100 events, and otherwise the runner and its
  channel are unchanged. The executor's \<open>emit\<close> does the same on that channel, and
  nothing on a nil channel.
\<close>

theorem C4_emit_never_blocks:
  "cap (Events NewRunner) = 100
   \<and> (cap (Events r) = 100 \<longrightarrow>
        cap (Events (emit r event)) = 100
        \<and> (length (buf (Events r)) < 100 \<longrightarrow>
              buf (Events (emit r event)) = buf (Events r) @ [event])
        \<and> (\<not> length (buf (Events r)) < 100 \<longrightarrow> emit r event = r)
        \<and> executorEmit (Some (Events r)) event = Some (Events (emit r event)))
   \<and> executorEmit None event = None"
  by (simp add: NewRunner_def makeChan_def emit_def executorEmit_def chanSend_def)

text \<open>
  C4 at concrete channels: a fresh runner takes the event; a runner whose queue holds 100
  events drops it.
\<close>

theorem C4_emit_never_blocks_witness:
  "cap (Events NewRunner) = 100
   \<and> buf (Events (emit NewRunner (NewEvent EventSessionComplete ''system'' NoData)))
       = [NewEvent EventSessionComplete ''system'' NoData]
   \<and> cap (Events \<lparr> Events = \<lparr> buf = replicate 100 (NewEvent EventError ''system'' NoData),
                              cap = 100 \<rparr> \<rparr>) = 100
   \<and> \<not> length (buf (Events \<lparr> Events = \<lparr> buf = replicate 100 (NewEvent EventError ''system'' NoData),
                              cap = 100 \<rparr> \<rparr>)) < 100
   \<and> emit \<lparr> Events = \<lparr> buf = replicate 100 (NewEvent EventError ''system'' NoData),
                        cap = 100 \<rparr> \<rparr> (NewEvent EventSessionComplete ''system'' NoData)
       = \<lparr> Events = \<lparr> buf = replicate 100 (NewEvent EventError ''system'' NoData),
                        cap = 100 \<rparr> \<rparr>"
  using C4_emit_never_blocks [of NewRunner "NewEvent EventSessionComplete ''system'' NoData"]
    C4_emit_never_blocks [of "\<lparr> Events = \<lparr> buf = replicate 100 (NewEvent EventError ''system'' NoData), cap = 100 \<rparr> \<rparr>"
       "NewEvent EventSessionComplete ''system'' NoData"]
  by (simp add: NewRunner_def makeChan_def)

subsection \<open>The board invariant is kept\<close>






lemma boardInv_fields:
  "heap m' = heap m \<Longrightarrow> cards m' = cards m \<Longrightarrow> columns m' = columns m \<Longrightarrow>
   boardInv m' = boardInv m"
  by (simp add: boardInv_def)



lemma moveCard_fields:
  "heap (moveCard m a to) = (heap m)[a := (heap m ! a)\<lparr>Column := to\<rparr>]"
  "cards (moveCard m a to) = cards m"
  by (simp_all add: moveCard_def Let_def)









subsection \<open>Columns of cards\<close>

lemma nth_update_Column:
  "a < length h \<Longrightarrow> Column (h[p := k] ! a) = (if a = p then Column k else Column (h ! a))"
  by (cases "a = p") simp_all

lemma handle_Column:
  assumes "a < length (heap m)"
  shows "Column (heap (handleTeamEventCopy m e) ! a) =
     (case targetColumn (Type e) of
        Some c \<Rightarrow> (if cards m (TaskID e) = Some a then c else Column (heap m ! a))
      | None \<Rightarrow> Column (heap m ! a))"
  using assms
  by (cases "Type e")
     (auto simp: handleTeamEventCopy_def moveCard_fields addCard_def nth_update_Column nth_append
        split: option.splits EventData.splits)

text \<open>
  C2 (amended): processing an event changes the column of a card only when the event is
  task-started, task-completed, task-moved-to-review or pm-approved and its task ID names
  that card; the card then goes to InProgress, Review, Review or Done respectively,
  whatever its column was. So the column of a card does not move backward under an event
  whose target column is not before the card's column.
\<close>

theorem C2_amended:
  "(a < length (heap m) \<longrightarrow>
      Column (heap (handleTeamEventCopy m e) ! a) =
        (case targetColumn (Type e) of
           Some c \<Rightarrow> (if cards m (TaskID e) = Some a then c else Column (heap m ! a))
         | None \<Rightarrow> Column (heap m ! a)))
   \<and> (a < length (heap m)
        \<and> (\<forall>c. targetColumn (Type e) = Some c \<longrightarrow> colRank (Column (heap m ! a)) \<le> colRank c)
      \<longrightarrow> colRank (Column (heap m ! a)) \<le> colRank (Column (heap (handleTeamEventCopy m e) ! a)))"
proof -
  have step: "a < length (heap m) \<Longrightarrow>
      Column (heap (handleTeamEventCopy m e) ! a) =
        (case targetColumn (Type e) of
           Some c \<Rightarrow> (if cards m (TaskID e) = Some a then c else Column (heap m ! a))
         | None \<Rightarrow> Column (heap m ! a))"
    by (rule handle_Column)
  have mono: "colRank (Column (heap m ! a)) \<le> colRank (Column (heap (handleTeamEventCopy m e) ! a))"
    if "a < length (heap m)"
      and "\<forall>c. targetColumn (Type e) = Some c \<longrightarrow> colRank (Column (heap m ! a)) \<le> colRank c"
    using that step by (auto split: option.splits)
  show ?thesis using step mono by blast
qed

text \<open>C2 (amended) at a card in Backlog that receives a task-started event.\<close>

theorem C2_amended_witness:
  "(0::nat) < length (heap (processEvents
        [NewTaskEvent EventTaskCreated ''t'' ''pm'' (TaskCreatedData ''T'' ''T'' ''gpt'' False [])]))
   \<and> Column (heap (handleTeamEventCopy (processEvents
        [NewTaskEvent EventTaskCreated ''t'' ''pm'' (TaskCreatedData ''T'' ''T'' ''gpt'' False [])])
        (NewTaskEvent EventTaskStarted ''t'' ''gpt'' NoData)) ! 0) = ColumnInProgress
   \<and> colRank (Column (heap (processEvents
        [NewTaskEvent EventTaskCreated ''t'' ''pm'' (TaskCreatedData ''T'' ''T'' ''gpt'' False [])]) ! 0))
      \<le> colRank (Column (heap (handleTeamEventCopy (processEvents
        [NewTaskEvent EventTaskCreated ''t'' ''pm'' (TaskCreatedData ''T'' ''T'' ''gpt'' False [])])
        (NewTaskEvent EventTaskStarted ''t'' ''gpt'' NoData)) ! 0))"
  using C2_amended [of 0 "processEvents
        [NewTaskEvent EventTaskCreated ''t'' ''pm'' (TaskCreatedData ''T'' ''T'' ''gpt'' False [])]"
        "NewTaskEvent EventTaskStarted ''t'' ''gpt'' NoData"]
  by (simp add: processEvents_def NewTaskEvent_def handleTeamEventCopy_def
        NewKanbanModel_def addCard_def NewKanbanCard_def)

text \<open>
  C2 (counterexample): a card is created and approved, so it is in Done; a task-started
  event for it then moves it back to InProgress.
\<close>

theorem C2_counterexample:
  "map_option Column (cardOf (processEvents
      [NewTaskEvent EventTaskCreated ''t'' ''pm'' (TaskCreatedData ''T'' ''T'' ''gpt'' False []),
       NewTaskEvent EventPMApproved ''t'' ''pm'' NoData]) ''t'') = Some ColumnDone
   \<and> map_option Column (cardOf (processEvents
      [NewTaskEvent EventTaskCreated ''t'' ''pm'' (TaskCreatedData ''T'' ''T'' ''gpt'' False []),
       NewTaskEvent EventPMApproved ''t'' ''pm'' NoData,
       NewTaskEvent EventTaskStarted ''t'' ''gpt'' NoData]) ''t'') = Some ColumnInProgress
   \<and> colRank ColumnInProgress < colRank ColumnDone"
  by (simp add: processEvents_def NewTaskEvent_def handleTeamEventCopy_def
        NewKanbanModel_def addCard_def moveCard_def NewKanbanCard_def cardOf_def Let_def)

text \<open>
  C3 (the code at the failing input): cards a and b are created, then card c depending
  on a and b. Both dependencies are in Backlog, not in Done, and \<open>IsBlocked\<close> of c is
  false: no event ever writes \<open>BlockedBy\<close>.
\<close>

theorem C3_blocked_not_computed:
  "map_option DependsOn (cardOf (processEvents
      [NewTaskEvent EventTaskCreated ''a'' ''pm'' (TaskCreatedData ''A'' ''A'' ''gpt'' False []),
       NewTaskEvent EventTaskCreated ''b'' ''pm'' (TaskCreatedData ''B'' ''B'' ''gpt'' False []),
       NewTaskEvent EventTaskCreated ''c'' ''pm''
         (TaskCreatedData ''C'' ''C'' ''gpt'' False [''a'', ''b''])]) ''c'') = Some [''a'', ''b'']
   \<and> map_option Column (cardOf (processEvents
      [NewTaskEvent EventTaskCreated ''a'' ''pm'' (TaskCreatedData ''A'' ''A'' ''gpt'' False []),
       NewTaskEvent EventTaskCreated ''b'' ''pm'' (TaskCreatedData ''B'' ''B'' ''gpt'' False []),
       NewTaskEvent EventTaskCreated ''c'' ''pm''
         (TaskCreatedData ''C'' ''C'' ''gpt'' False [''a'', ''b''])]) ''a'') = Some ColumnBacklog
   \<and> map_option IsBlocked (cardOf (processEvents
      [NewTaskEvent EventTaskCreated ''a'' ''pm'' (TaskCreatedData ''A'' ''A'' ''gpt'' False []),
       NewTaskEvent EventTaskCreated ''b'' ''pm'' (TaskCreatedData ''B'' ''B'' ''gpt'' False []),
       NewTaskEvent EventTaskCreated ''c'' ''pm''
         (TaskCreatedData ''C'' ''C'' ''gpt'' False [''a'', ''b''])]) ''c'') = Some False"
  by (simp add: processEvents_def NewTaskEvent_def handleTeamEventCopy_def IsBlocked_def
        NewKanbanModel_def addCard_def moveCard_def NewKanbanCard_def cardOf_def Let_def)



end
